theory Spec2Isabelle
  imports Main "HOL-Library.AList"
begin

section \<open>The event manager (event-manager.ts)\<close>

text \<open>
  The class \<open>EventManager\<close> keeps one private field, \<open>callbacks\<close>: a plain object
  (created as \<open>{}\<close>) whose property for an event name holds a JavaScript \<open>Map\<close> from
  listener ids to callbacks. Three JavaScript facts decide what the methods do, and the
  model writes each of them out.

  \<^item> A \<open>Map\<close> keeps its entries in an internal slot (\<open>[[MapData]]\<close>), in insertion order.
    \<open>Map.prototype.set\<close> and \<open>Map.prototype.delete\<close> change that slot only; they never
    create a property on the \<open>Map\<close> object.
  \<^item> \<open>Object.values(o)\<close> returns the values of the own enumerable string-keyed
    properties of \<open>o\<close>. It does not read \<open>[[MapData]]\<close>.
  \<^item> A property read \<open>this.callbacks[event]\<close> on an object created as \<open>{}\<close> falls
    back to \<open>Object.prototype\<close> when the object has no own property of that name.
    The members of \<open>Object.prototype\<close> are functions (and, for \<open>__proto__\<close>,
    \<open>Object.prototype\<close> itself): truthy values without \<open>set\<close> or \<open>delete\<close> methods and
    without own enumerable properties.
\<close>

type_synonym ListenerId = string

text \<open>
  The values a read of \<open>this.callbacks[event]\<close> can produce. A \<open>Map\<close> carries its
  \<open>[[MapData]]\<close> (an insertion-ordered association list) and, as every object does, its
  own enumerable properties. \<open>PrototypeMember\<close> stands for a value inherited from
  \<open>Object.prototype\<close>.
\<close>

datatype 'cb JsObject =
    MapObject (mapData: "(ListenerId \<times> 'cb) list") (ownEnumerable: "(string \<times> 'cb) list")
  | PrototypeMember

datatype JsError = TypeError

text \<open>
  The state of one \<open>EventManager\<close>: the own properties of \<open>this.callbacks\<close>, and the
  calls made to \<open>this.logger.debug\<close> so far (message and event name).
\<close>

record 'cb EventManager =
  callbacks :: "string \<rightharpoonup> 'cb JsObject"
  logger :: "(string \<times> string) list"

text \<open>The constructor: \<open>callbacks = {}\<close>.\<close>

definition newEventManager :: "'cb EventManager" where
  "newEventManager = \<lparr>callbacks = Map.empty, logger = []\<rparr>"

text \<open>The property names every object created as \<open>{}\<close> inherits from \<open>Object.prototype\<close>.\<close>

definition objectPrototypeKeys :: "string list" where
  "objectPrototypeKeys =
     [''constructor'', ''__defineGetter__'', ''__defineSetter__'', ''hasOwnProperty'',
      ''__lookupGetter__'', ''__lookupSetter__'', ''isPrototypeOf'', ''propertyIsEnumerable'',
      ''toString'', ''valueOf'', ''__proto__'', ''toLocaleString'']"

text \<open>\<open>obj[key]\<close>: the own property, else the inherited one, else \<open>undefined\<close> (\<open>None\<close>).\<close>

definition getProperty :: "(string \<rightharpoonup> 'cb JsObject) \<Rightarrow> string \<Rightarrow> 'cb JsObject option" where
  "getProperty obj key =
     (case obj key of
        Some v \<Rightarrow> Some v
      | None \<Rightarrow> if key \<in> set objectPrototypeKeys then Some PrototypeMember else None)"

text \<open>\<open>new Map()\<close>.\<close>

definition newMap :: "'cb JsObject" where
  "newMap = MapObject [] []"

text \<open>
  \<open>m.set(k, v)\<close>: on a \<open>Map\<close>, replaces the value of an existing key in place or appends
  a new entry; on a value without a \<open>set\<close> method the call throws a \<open>TypeError\<close>.
\<close>

definition mapSet :: "ListenerId \<Rightarrow> 'cb \<Rightarrow> 'cb JsObject \<Rightarrow> JsError + 'cb JsObject" where
  "mapSet k v obj =
     (case obj of
        MapObject entries props \<Rightarrow> Inr (MapObject (AList.update k v entries) props)
      | PrototypeMember \<Rightarrow> Inl TypeError)"

text \<open>\<open>m.delete(k)\<close>.\<close>

definition mapDelete :: "ListenerId \<Rightarrow> 'cb JsObject \<Rightarrow> JsError + 'cb JsObject" where
  "mapDelete k obj =
     (case obj of
        MapObject entries props \<Rightarrow> Inr (MapObject (AList.delete k entries) props)
      | PrototypeMember \<Rightarrow> Inl TypeError)"

text \<open>\<open>Object.values(o)\<close>: the values of the own enumerable properties, in order.\<close>

definition objectValues :: "'cb JsObject \<Rightarrow> 'cb list" where
  "objectValues obj =
     (case obj of
        MapObject entries props \<Rightarrow> map snd props
      | PrototypeMember \<Rightarrow> [])"

text \<open>
  \<^verbatim>\<open>
  private callbacksFor(event) {
    if (!this.callbacks[event]) {
      this.callbacks[event] = new Map();
    }
    return this.callbacks[event];
  }
  \<close>
  Every object is truthy, so the branch is taken exactly when the read gives \<open>undefined\<close>.
\<close>

definition callbacksFor :: "'cb EventManager \<Rightarrow> string \<Rightarrow> 'cb EventManager \<times> 'cb JsObject" where
  "callbacksFor m event =
     (case getProperty (callbacks m) event of
        None \<Rightarrow> (m\<lparr>callbacks := (callbacks m)(event \<mapsto> newMap)\<rparr>, newMap)
      | Some obj \<Rightarrow> (m, obj))"

text \<open>
  \<^verbatim>\<open>
  addEventListener(event, callback): ListenerId {
    this.logger.debug("Adding event listener", event);
    const callBackId = newGuid<ListenerId>();
    this.callbacksFor(event).set(callBackId, callback);
    return callBackId;
  }
  \<close>
  \<open>newGuid\<close> draws a random identifier; the model takes the identifier drawn as the
  argument \<open>callBackId\<close>. The \<open>Map\<close> returned by \<open>callbacksFor\<close> is the object stored in
  \<open>this.callbacks[event]\<close>, so its mutation by \<open>set\<close> is written back there. The result
  is the state after the call together with the returned id, or the exception thrown.
\<close>

definition addEventListener ::
  "'cb EventManager \<Rightarrow> string \<Rightarrow> 'cb \<Rightarrow> ListenerId \<Rightarrow> 'cb EventManager \<times> (JsError + ListenerId)" where
  "addEventListener m event callback callBackId =
     (let m1 = m\<lparr>logger := logger m @ [(''Adding event listener'', event)]\<rparr>;
          (m2, obj) = callbacksFor m1 event
      in case mapSet callBackId callback obj of
           Inl e \<Rightarrow> (m2, Inl e)
         | Inr obj' \<Rightarrow> (m2\<lparr>callbacks := (callbacks m2)(event \<mapsto> obj')\<rparr>, Inr callBackId))"

text \<open>
  \<^verbatim>\<open>
  dispatchEvent(event, ...args) {
    this.logger.debug("Dispatching event", event);
    const callbacks = this.callbacksFor(event);
    for (const callback of Object.values(callbacks)) {
      callback(...args);
    }
  }
  \<close>
  A callback is opaque to the manager; the model returns the calls the loop makes, in
  order, each as the callback with the arguments it is applied to.
\<close>

definition dispatchEvent ::
  "'cb EventManager \<Rightarrow> string \<Rightarrow> 'arg list \<Rightarrow> 'cb EventManager \<times> ('cb \<times> 'arg list) list" where
  "dispatchEvent m event args =
     (let m1 = m\<lparr>logger := logger m @ [(''Dispatching event'', event)]\<rparr>;
          (m2, obj) = callbacksFor m1 event
      in (m2, map (\<lambda>callback. (callback, args)) (objectValues obj)))"

text \<open>
  \<^verbatim>\<open>
  removeEventListener(event, callbackId) {
    this.logger.debug("Removing event listener", event);
    this.callbacksFor(event).delete(callbackId);
  }
  \<close>
\<close>

definition removeEventListener ::
  "'cb EventManager \<Rightarrow> string \<Rightarrow> ListenerId \<Rightarrow> 'cb EventManager \<times> (JsError + unit)" where
  "removeEventListener m event callbackId =
     (let m1 = m\<lparr>logger := logger m @ [(''Removing event listener'', event)]\<rparr>;
          (m2, obj) = callbacksFor m1 event
      in case mapDelete callbackId obj of
           Inl e \<Rightarrow> (m2, Inl e)
         | Inr obj' \<Rightarrow> (m2\<lparr>callbacks := (callbacks m2)(event \<mapsto> obj')\<rparr>, Inr ()))"

text \<open>
  \<open>callbacks\<close> is private, so an instance changes only through its three public methods.
  A history is the list of calls made on an instance since its construction; a call that
  throws leaves the state it had reached.
\<close>

datatype ('cb, 'arg) Call =
    AddEventListener string 'cb ListenerId
  | DispatchEvent string "'arg list"
  | RemoveEventListener string ListenerId

fun perform :: "'cb EventManager \<Rightarrow> ('cb, 'arg) Call \<Rightarrow> 'cb EventManager" where
  "perform m (AddEventListener event callback callBackId) =
     fst (addEventListener m event callback callBackId)"
| "perform m (DispatchEvent event args) = fst (dispatchEvent m event args)"
| "perform m (RemoveEventListener event callbackId) =
     fst (removeEventListener m event callbackId)"

definition after :: "('cb, 'arg) Call list \<Rightarrow> 'cb EventManager" where
  "after history = foldl perform newEventManager history"

text \<open>The callbacks a history has left registered for an event: the \<open>Map\<close>'s entries.\<close>

definition registered :: "'cb EventManager \<Rightarrow> string \<Rightarrow> (ListenerId \<times> 'cb) list" where
  "registered m event =
     (case callbacks m event of
        Some (MapObject entries props) \<Rightarrow> entries
      | _ \<Rightarrow> [])"

text \<open>
  The invariant behind the dispatch loop: no object stored in \<open>callbacks\<close> has an own
  enumerable property.
\<close>

definition noEnumerable :: "'cb EventManager \<Rightarrow> bool" where
  "noEnumerable m = (\<forall>event obj. callbacks m event = Some obj \<longrightarrow> objectValues obj = [])"


section \<open>Base64url to base64 (string-manipulation.ts)\<close>

datatype Error = IllegalBase64UrlString

text \<open>\<open>s.replace(/a/g, b)\<close> for single characters \<open>a\<close> and \<open>b\<close>.\<close>

definition replaceAll :: "char \<Rightarrow> char \<Rightarrow> string \<Rightarrow> string" where
  "replaceAll a b s = map (\<lambda>c. if c = a then b else c) s"

text \<open>
  Modelled from the spec: the function \<open>fromUrlB64ToB64\<close> of string-manipulation.ts is
  missing from the sources; only its tests (string-manipulation.spec.ts) are there. The
  spec lists it among the encoding helpers, "base64 / base64url transcoding (with and
  without padding)". The definition follows what the tests pin down: \<open>-\<close> becomes
  \<open>+\<close>, \<open>_\<close> becomes \<open>/\<close>, a length of 3 modulo 4 is padded with one \<open>=\<close>, a length of
  2 modulo 4 with two, and a length of 1 modulo 4 throws an error whose message contains
  "Illegal base64url string" (the constructor \<open>IllegalBase64UrlString\<close>). A length
  of 0 modulo 4 needs no padding. The function looks at no character other than \<open>-\<close>
  and \<open>_\<close>, so the characters of the model's \<open>string\<close> stand for the code units of
  the JavaScript string, and \<open>length\<close> for its \<open>.length\<close>.
\<close>

definition fromUrlB64ToB64 :: "string \<Rightarrow> Error + string" where
  "fromUrlB64ToB64 urlB64Str =
     (let output = replaceAll (CHR ''_'') (CHR ''/'') (replaceAll (CHR ''-'') (CHR ''+'') urlB64Str);
          r = length output mod 4
      in if r = 0 then Inr output
         else if r = 2 then Inr (output @ ''=='')
         else if r = 3 then Inr (output @ ''='')
         else Inl IllegalBase64UrlString)"


section \<open>Properties of the event manager\<close>

lemma objectValues_newMap: "objectValues newMap = []"
  by (simp add: objectValues_def newMap_def)

lemma objectValues_mapSet: "mapSet k v obj = Inr obj' \<Longrightarrow> objectValues obj' = objectValues obj"
  by (auto simp: mapSet_def objectValues_def split: JsObject.splits)

lemma objectValues_mapDelete: "mapDelete k obj = Inr obj' \<Longrightarrow> objectValues obj' = objectValues obj"
  by (auto simp: mapDelete_def objectValues_def split: JsObject.splits)

lemma noEnumerable_new: "noEnumerable newEventManager"
  by (simp add: noEnumerable_def newEventManager_def)

lemma noEnumerable_logger: "noEnumerable (m\<lparr>logger := l\<rparr>) = noEnumerable m"
  by (simp add: noEnumerable_def)

lemma noEnumerable_store:
  "noEnumerable m \<Longrightarrow> objectValues obj = [] \<Longrightarrow> noEnumerable (m\<lparr>callbacks := (callbacks m)(event \<mapsto> obj)\<rparr>)"
  by (simp add: noEnumerable_def)

text \<open>What \<open>callbacksFor\<close> returns never has an own enumerable property.\<close>

lemma callbacksFor_values:
  assumes "noEnumerable m" and "callbacksFor m event = (m', obj)"
  shows "objectValues obj = []" and "noEnumerable m'"
proof -
  show "objectValues obj = []"
  proof (cases "callbacks m event")
    case None
    with assms(2) show ?thesis
      by (auto simp: callbacksFor_def getProperty_def objectValues_def newMap_def
               split: if_splits)
  next
    case (Some v)
    with assms show ?thesis
      by (auto simp: callbacksFor_def getProperty_def noEnumerable_def)
  qed
  show "noEnumerable m'"
    using assms
    by (auto simp: callbacksFor_def getProperty_def objectValues_newMap
             intro: noEnumerable_store split: option.splits if_splits)
qed

lemma noEnumerable_addEventListener:
  assumes "noEnumerable m"
  shows "noEnumerable (fst (addEventListener m event callback callBackId))"
proof -
  let ?m1 = "m\<lparr>logger := logger m @ [(''Adding event listener'', event)]\<rparr>"
  obtain m2 obj where c: "callbacksFor ?m1 event = (m2, obj)"
    by (cases "callbacksFor ?m1 event")
  from assms have "noEnumerable ?m1"
    by (simp add: noEnumerable_logger)
  from callbacksFor_values[OF this c] have v: "objectValues obj = []" and i: "noEnumerable m2"
    by simp_all
  show ?thesis
  proof (cases "mapSet callBackId callback obj")
    case (Inl e)
    with c i show ?thesis
      by (simp add: addEventListener_def)
  next
    case (Inr obj')
    with v have "objectValues obj' = []"
      by (simp add: objectValues_mapSet)
    with c i Inr show ?thesis
      by (simp add: addEventListener_def noEnumerable_store)
  qed
qed

lemma noEnumerable_removeEventListener:
  assumes "noEnumerable m"
  shows "noEnumerable (fst (removeEventListener m event callbackId))"
proof -
  let ?m1 = "m\<lparr>logger := logger m @ [(''Removing event listener'', event)]\<rparr>"
  obtain m2 obj where c: "callbacksFor ?m1 event = (m2, obj)"
    by (cases "callbacksFor ?m1 event")
  from assms have "noEnumerable ?m1"
    by (simp add: noEnumerable_logger)
  from callbacksFor_values[OF this c] have v: "objectValues obj = []" and i: "noEnumerable m2"
    by simp_all
  show ?thesis
  proof (cases "mapDelete callbackId obj")
    case (Inl e)
    with c i show ?thesis
      by (simp add: removeEventListener_def)
  next
    case (Inr obj')
    with v have "objectValues obj' = []"
      by (simp add: objectValues_mapDelete)
    with c i Inr show ?thesis
      by (simp add: removeEventListener_def noEnumerable_store)
  qed
qed

lemma dispatchEvent_noEnumerable:
  assumes "noEnumerable m"
  shows "snd (dispatchEvent m event args) = []" and "noEnumerable (fst (dispatchEvent m event args))"
proof -
  let ?m1 = "m\<lparr>logger := logger m @ [(''Dispatching event'', event)]\<rparr>"
  obtain m2 obj where c: "callbacksFor ?m1 event = (m2, obj)"
    by (cases "callbacksFor ?m1 event")
  from assms have "noEnumerable ?m1"
    by (simp add: noEnumerable_logger)
  from callbacksFor_values[OF this c] have v: "objectValues obj = []" and i: "noEnumerable m2"
    by simp_all
  from c v show "snd (dispatchEvent m event args) = []"
    by (simp add: dispatchEvent_def)
  from c i show "noEnumerable (fst (dispatchEvent m event args))"
    by (simp add: dispatchEvent_def)
qed

lemma noEnumerable_perform: "noEnumerable m \<Longrightarrow> noEnumerable (perform m call)"
  by (cases call)
     (simp_all add: noEnumerable_addEventListener noEnumerable_removeEventListener
        dispatchEvent_noEnumerable(2))

lemma noEnumerable_foldl: "noEnumerable m \<Longrightarrow> noEnumerable (foldl perform m history)"
  by (induction history arbitrary: m) (simp_all add: noEnumerable_perform)

lemma noEnumerable_after: "noEnumerable (after history)"
  by (simp add: after_def noEnumerable_foldl noEnumerable_new)


text \<open>A successful \<open>addEventListener\<close> does register the callback under the returned id.\<close>

lemma update_mem: "(k, v) \<in> set (AList.update k v al)"
  by (induction al) auto

lemma addEventListener_registers:
  assumes "addEventListener m event callback callBackId = (m', Inr i)"
  shows "i = callBackId" and "(callBackId, callback) \<in> set (registered m' event)"
proof -
  let ?m1 = "m\<lparr>logger := logger m @ [(''Adding event listener'', event)]\<rparr>"
  obtain m2 obj where c: "callbacksFor ?m1 event = (m2, obj)"
    by (cases "callbacksFor ?m1 event")
  from assms c obtain obj' where s: "mapSet callBackId callback obj = Inr obj'"
    and m': "m' = m2\<lparr>callbacks := (callbacks m2)(event \<mapsto> obj')\<rparr>" and i: "i = callBackId"
    by (auto simp: addEventListener_def split: sum.splits)
  from i show "i = callBackId" .
  from s obtain entries props where "obj' = MapObject (AList.update callBackId callback entries) props"
    by (auto simp: mapSet_def split: JsObject.splits)
  with m' show "(callBackId, callback) \<in> set (registered m' event)"
    by (simp add: registered_def update_mem)
qed

text \<open>
  C9. For every \<open>EventManager\<close> instance (the state after any history of calls since
  construction, so with any callbacks registered by \<open>addEventListener\<close>), every event
  name and all arguments, \<open>dispatchEvent\<close> invokes no callback: the loop runs over
  \<open>Object.values\<close> of the \<open>Map\<close> that holds the callbacks, which is empty.
\<close>

theorem dispatchEvent_invokes_nothing:
  "snd (dispatchEvent (after history) event args) = []"
proof -
  have "noEnumerable (after history)"
    by (rule noEnumerable_after)
  then show ?thesis
    by (rule dispatchEvent_noEnumerable(1))
qed

text \<open>
  An instance of it: a listener registered for \<open>push\<close> is held by the manager, and
  dispatching \<open>push\<close> does not call it.
\<close>

lemma registered_listener_not_called:
  "registered (after [AddEventListener ''push'' cb ''id'']) ''push'' = [(''id'', cb)]
   \<and> snd (dispatchEvent (after [AddEventListener ''push'' cb ''id'']) ''push'' args) = []"
  by (simp add: after_def newEventManager_def addEventListener_def callbacksFor_def
        getProperty_def objectPrototypeKeys_def newMap_def mapSet_def registered_def
        dispatchEvent_def objectValues_def)

text \<open>
  For an event named like a member of \<open>Object.prototype\<close> the registration itself
  throws, and dispatching finds nothing to call either.
\<close>

lemma prototype_named_event:
  "snd (addEventListener newEventManager ''toString'' cb i) = Inl TypeError
   \<and> snd (dispatchEvent newEventManager ''toString'' args) = []"
  by (simp add: newEventManager_def addEventListener_def callbacksFor_def
        getProperty_def objectPrototypeKeys_def mapSet_def dispatchEvent_def objectValues_def)


section \<open>Properties of the base64url conversion\<close>

text \<open>The expectations of the tests in string-manipulation.spec.ts.\<close>

lemma fromUrlB64ToB64_adds_padding:
  "fromUrlB64ToB64 ''aGVsbG8gd29ybGQ'' = Inr ''aGVsbG8gd29ybGQ=''"
  "fromUrlB64ToB64 ''aGVsbG8gd29ybG'' = Inr ''aGVsbG8gd29ybG==''"
  by (simp_all add: fromUrlB64ToB64_def replaceAll_def)

lemma fromUrlB64ToB64_throws_on_illegal:
  "fromUrlB64ToB64 ''aGVsbG8gd29yb'' = Inl IllegalBase64UrlString"
  by (simp add: fromUrlB64ToB64_def replaceAll_def)

lemma fromUrlB64ToB64_replaces_minus:
  "fromUrlB64ToB64 ''-GVsbG8gd29ybGQ'' = Inr ''+GVsbG8gd29ybGQ=''"
  by (simp add: fromUrlB64ToB64_def replaceAll_def)

lemma fromUrlB64ToB64_replaces_underscore:
  "fromUrlB64ToB64 ''_GVsbG8gd29ybGQ'' = Inr ''/GVsbG8gd29ybGQ=''"
  by (simp add: fromUrlB64ToB64_def replaceAll_def)

lemma replaceAll_both:
  "replaceAll (CHR ''_'') (CHR ''/'') (replaceAll (CHR ''-'') (CHR ''+'') s) =
   map (\<lambda>c. if c = CHR ''-'' then CHR ''+'' else if c = CHR ''_'' then CHR ''/'' else c) s"
  by (induction s) (simp_all add: replaceAll_def)

lemma length_replaceAll: "length (replaceAll a b s) = length s"
  by (simp add: replaceAll_def)

text \<open>
  C10. \<open>fromUrlB64ToB64\<close> throws the "Illegal base64url string" error exactly when the
  length of the input is 1 modulo 4. For every other input it returns the input with
  each \<open>-\<close> replaced by \<open>+\<close> and each \<open>_\<close> by \<open>/\<close>, followed by the \<open>=\<close> padding (fewer
  than four characters) that makes the length of the result a multiple of 4.
\<close>

theorem fromUrlB64ToB64_result:
  "(case fromUrlB64ToB64 s of
      Inl e \<Rightarrow> e = IllegalBase64UrlString \<and> length s mod 4 = 1
    | Inr b64 \<Rightarrow>
        length s mod 4 \<noteq> 1
        \<and> (\<exists>pad < 4. b64 =
              map (\<lambda>c. if c = CHR ''-'' then CHR ''+'' else if c = CHR ''_'' then CHR ''/'' else c) s
              @ replicate pad (CHR ''=''))
        \<and> length b64 mod 4 = 0)"
proof -
  let ?out = "map (\<lambda>c. if c = CHR ''-'' then CHR ''+'' else if c = CHR ''_'' then CHR ''/'' else c) s"
  have len: "length ?out = length s"
    by simp
  consider "length s mod 4 = 0" | "length s mod 4 = 1" | "length s mod 4 = 2" | "length s mod 4 = 3"
    by linarith
  then show ?thesis
  proof cases
    case 1
    have "?out = ?out @ replicate 0 (CHR ''='')"
      by simp
    then have "\<exists>pad < 4. ?out = ?out @ replicate pad (CHR ''='')"
      by (intro exI[of _ "0::nat"]) simp
    with 1 show ?thesis
      by (simp add: fromUrlB64ToB64_def replaceAll_both)
  next
    case 2
    then show ?thesis
      by (simp add: fromUrlB64ToB64_def replaceAll_both)
  next
    case 3
    have "\<exists>pad < 4. ?out @ ''=='' = ?out @ replicate pad (CHR ''='')"
      by (intro exI[of _ "2::nat"]) (simp add: numeral_2_eq_2)
    moreover from 3 have "(length s + 2) mod 4 = 0"
      by presburger
    ultimately show ?thesis
      using 3 by (simp add: fromUrlB64ToB64_def replaceAll_both)
  next
    case 4
    have "\<exists>pad < 4. ?out @ ''='' = ?out @ replicate pad (CHR ''='')"
      by (intro exI[of _ "1::nat"]) simp
    moreover from 4 have "Suc (length s) mod 4 = 0"
      by presburger
    ultimately show ?thesis
      using 4 by (simp add: fromUrlB64ToB64_def replaceAll_both)
  qed
qed

end
